theory Spec2Isabelle
  imports Complex_Main "HOL-Library.Word"
begin

section \<open>JavaScript values, requests and responses\<close>

text \<open>
  A JavaScript string is a sequence of UTF-16 code units, and \<open>.length\<close> counts code
  units. String literals of the source are ASCII and are embedded with \<open>lit\<close>.
\<close>

type_synonym js_string = "16 word list"

definition lit :: "string \<Rightarrow> js_string" where
  "lit s = map of_char s"

text \<open>
  The values handed to \<open>c.json\<close>. Numbers are the finite ones, with \<open>NaN\<close> apart because
  the truthiness test of the source treats it like \<open>0\<close>. \<open>JIso t\<close> stands for the string
  \<open>new Date(t).toISOString()\<close> of the instant \<open>t\<close> (milliseconds since the epoch);
  the calendar arithmetic of the runtime is not unfolded.
\<close>

datatype js_value =
    JUndefined
  | JNull
  | JBool bool
  | JNum real
  | JNaN
  | JStr js_string
  | JIso int
  | JArr "js_value list"
  | JObj "(string \<times> js_value) list"

text \<open>JavaScript truthiness, as \<open>!x\<close> and \<open>||\<close> test it.\<close>

fun truthy :: "js_value \<Rightarrow> bool" where
  "truthy JUndefined = False"
| "truthy JNull = False"
| "truthy (JBool b) = b"
| "truthy (JNum x) = (x \<noteq> 0)"
| "truthy JNaN = False"
| "truthy (JStr s) = (s \<noteq> [])"
| "truthy (JIso t) = True"
| "truthy (JArr xs) = True"
| "truthy (JObj kvs) = True"

text \<open>
  A header or a path parameter read from the request is a string or \<open>undefined\<close>
  (\<open>None\<close>); the empty string is falsy as well.
\<close>

definition truthy_str :: "js_string option \<Rightarrow> bool" where
  "truthy_str v = (case v of None \<Rightarrow> False | Some s \<Rightarrow> s \<noteq> [])"

definition startsWith :: "js_string \<Rightarrow> js_string \<Rightarrow> bool" where
  "startsWith s p = (take (length p) s = p)"

text \<open>
  The route the dispatcher of the framework resolved for the method and path of a
  request, with the path parameter it extracted. \<open>Unmatched\<close> is every other method and
  path.
\<close>

datatype route =
    Catalog
  | PlayerStats "js_string option"
  | Root
  | Health
  | Unmatched

text \<open>
  The headers of a request are keyed by header name; the framework matches names without
  regard to case, so a key stands for the name in any casing.
\<close>

record request =
  target :: route
  headers :: "string \<rightharpoonup> js_string"

definition req_header :: "request \<Rightarrow> string \<Rightarrow> js_string option" where
  "req_header c name = headers c name"

record response =
  status :: int
  body :: js_value
  resp_headers :: "(string \<times> string) list"

text \<open>
  The \<open>Response\<close> of \<open>c.json(body, status, headers)\<close>; the status defaults to 200. With
  the literal statuses of the source (200, 401, 429) it is always built; \<open>c_json\<close> below
  is the call with a status that is only known when it runs.
\<close>

definition json :: "js_value \<Rightarrow> int \<Rightarrow> (string \<times> string) list \<Rightarrow> response" where
  "json b st hs = \<lparr>status = st, body = b, resp_headers = hs\<rparr>"

section \<open>The rate limiter\<close>

record rate_record =
  count :: int
  resetTime :: int

type_synonym store = "js_string \<rightharpoonup> rate_record"

text \<open>A middleware either calls \<open>next()\<close> or answers the request itself.\<close>

datatype decision = Next | Respond response

text \<open>
  \<open>c.req.header('CF-Connecting-IP') || c.req.header('X-Forwarded-For') || 'anonymous'\<close>
\<close>

definition client_key :: "request \<Rightarrow> js_string" where
  "client_key c =
     (case req_header c ''CF-Connecting-IP'' of
        Some (u # us) \<Rightarrow> u # us
      | _ \<Rightarrow>
        (case req_header c ''X-Forwarded-For'' of
           Some (v # vs) \<Rightarrow> v # vs
         | _ \<Rightarrow> lit ''anonymous''))"

definition too_many_requests :: response where
  "too_many_requests = json (JObj [(''error'', JStr (lit ''Too many requests''))]) 429 []"

text \<open>
  The middleware \<open>rateLimit(windowMs, max)\<close>, on the store \<open>rateLimitStore\<close> and the clock
  reading \<open>now = Date.now()\<close>. It returns the store it leaves behind and what it did.
\<close>

definition rateLimit :: "int \<Rightarrow> int \<Rightarrow> store \<Rightarrow> int \<Rightarrow> request \<Rightarrow> store \<times> decision" where
  "rateLimit windowMs maxN st now c =
     (let key = client_key c in
      case st key of
        None \<Rightarrow> (st(key \<mapsto> \<lparr>count = 1, resetTime = now + windowMs\<rparr>), Next)
      | Some r \<Rightarrow>
          if now > resetTime r
          then (st(key \<mapsto> \<lparr>count = 1, resetTime = now + windowMs\<rparr>), Next)
          else if count r \<ge> maxN
          then (st, Respond too_many_requests)
          else (st(key \<mapsto> r\<lparr>count := count r + 1\<rparr>), Next))"

definition default_windowMs :: int where
  "default_windowMs = 15 * 60 * 1000"

definition default_max :: int where
  "default_max = 100"

text \<open>
  Requests reaching the limiter one after another, each with the clock reading at its
  arrival; the log holds the client key and the decision for each, in order.
\<close>

fun run :: "int \<Rightarrow> int \<Rightarrow> store \<Rightarrow> (request \<times> int) list \<Rightarrow> (js_string \<times> decision) list" where
  "run windowMs maxN st [] = []"
| "run windowMs maxN st ((c, now) # evs) =
     (case rateLimit windowMs maxN st now c of
        (st', d) \<Rightarrow> (client_key c, d) # run windowMs maxN st' evs)"

definition decisions_of :: "js_string \<Rightarrow> (js_string \<times> decision) list \<Rightarrow> decision list" where
  "decisions_of k entries = map snd (filter (\<lambda>(k', d). k' = k) entries)"

definition arrivals_of :: "js_string \<Rightarrow> (request \<times> int) list \<Rightarrow> int list" where
  "arrivals_of k evs = map snd (filter (\<lambda>(c, now). client_key c = k) evs)"

section \<open>The auth gate\<close>

definition unauthorized :: response where
  "unauthorized = json (JObj [(''error'', JStr (lit ''Unauthorized''))]) 401 []"

text \<open>\<open>!auth?.startsWith('Bearer ')\<close> holds for an absent header as well.\<close>

definition requireAuth :: "request \<Rightarrow> decision" where
  "requireAuth c =
     (case req_header c ''Authorization'' of
        None \<Rightarrow> Respond unauthorized
      | Some auth \<Rightarrow>
          if \<not> startsWith auth (lit ''Bearer '') then Respond unauthorized else Next)"

section \<open>Failures and the error handler\<close>

text \<open>
  What a handler, a middleware or a collaborator can throw: an \<open>HTTPException\<close> with its
  status and message; any other \<open>Error\<close>, of which only some detail is known; or a value
  that is not an \<open>Error\<close> instance.
\<close>

datatype failure = HTTPException int js_string | OtherError js_string | NonError js_value

text \<open>
  \<open>c.json\<close> with a status that is not a literal of the source. It builds a \<open>Response\<close>,
  whose constructor throws a \<open>RangeError\<close> for a status outside 200..599 and a
  \<open>TypeError\<close> for a body together with a null-body status.
\<close>

definition null_body_status :: "int \<Rightarrow> bool" where
  "null_body_status st = (st = 101 \<or> st = 103 \<or> st = 204 \<or> st = 205 \<or> st = 304)"

definition c_json :: "js_value \<Rightarrow> int \<Rightarrow> (string \<times> string) list \<Rightarrow> failure + response" where
  "c_json b st hs =
     (if st < 200 \<or> 599 < st then Inl (OtherError (lit ''RangeError''))
      else if null_body_status st then Inl (OtherError (lit ''TypeError''))
      else Inr (json b st hs))"

text \<open>
  \<open>app.onError\<close>; \<open>now\<close> is the clock read by \<open>new Date()\<close> when it builds the answer.
  Everything that is not an \<open>HTTPException\<close> takes the second branch.
\<close>

definition onError :: "int \<Rightarrow> failure \<Rightarrow> failure + response" where
  "onError now err =
     (case err of
        HTTPException st msg \<Rightarrow>
          c_json (JObj [(''error'', JStr msg),
                        (''status'', JNum (of_int st)),
                        (''timestamp'', JIso now)]) st []
      | _ \<Rightarrow>
          c_json (JObj [(''error'', JStr (lit ''Internal server error'')),
                        (''status'', JNum 500),
                        (''timestamp'', JIso now)]) 500 [])"

section \<open>The built-in routes\<close>

text \<open>
  \<open>GenerateShop\<close> is a collaborator: the handler is given what the call produced, a
  thrown failure or the value it returned.
\<close>

definition catalog_handler :: "failure + js_value \<Rightarrow> failure + response" where
  "catalog_handler shop =
     (case shop of
        Inl e \<Rightarrow> Inl e
      | Inr catalog \<Rightarrow>
          if \<not> truthy catalog
          then Inl (HTTPException 500 (lit ''Failed to generate shop catalog''))
          else Inr (json catalog 200
                 [(''Cache-Control'', ''public, max-age=300''),
                  (''X-Content-Type-Options'', ''nosniff'')]))"

definition player_stats_handler :: "int \<Rightarrow> js_string option \<Rightarrow> failure + response" where
  "player_stats_handler now playerId =
     (case playerId of
        None \<Rightarrow> Inl (HTTPException 400 (lit ''Invalid player ID''))
      | Some p \<Rightarrow>
          if \<not> truthy_str (Some p) \<or> length p < 3
          then Inl (HTTPException 400 (lit ''Invalid player ID''))
          else Inr (json (JObj [(''playerId'', JStr p),
                                (''stats'', JObj [(''wins'', JNum 0),
                                                  (''kills'', JNum 0),
                                                  (''matches'', JNum 0)]),
                                (''lastUpdated'', JIso now)]) 200 []))"

text \<open>The readings of \<open>process.uptime()\<close> (seconds) and \<open>process.memoryUsage()\<close> (bytes).\<close>

record process_info =
  uptime :: real
  heapUsed :: real
  heapTotal :: real

definition math_round :: "real \<Rightarrow> int" where
  "math_round x = \<lfloor>x + 1 / 2\<rfloor>"

definition root_handler :: "int \<Rightarrow> process_info \<Rightarrow> response" where
  "root_handler now p =
     json (JObj [(''message'', JStr (lit ''Universal Backend Online'')),
                 (''status'', JStr (lit ''healthy'')),
                 (''uptime'', JNum (of_int \<lfloor>uptime p\<rfloor>)),
                 (''memory'',
                    JObj [(''used'', JNum (of_int (math_round (heapUsed p / 1024 / 1024)))),
                          (''total'', JNum (of_int (math_round (heapTotal p / 1024 / 1024))))]),
                 (''timestamp'', JIso now),
                 (''version'', JStr (lit ''2.0.0''))]) 200 []"

definition health_handler :: "int \<Rightarrow> response" where
  "health_handler now =
     json (JObj [(''status'', JStr (lit ''healthy'')),
                 (''database'', JStr (lit ''connected'')),
                 (''timestamp'', JIso now)]) 200 []"

text \<open>
  The chain registered for the player-stats route:
  \<open>app.get('/fortnite/api/player/:playerId/stats', requireAuth, handler)\<close>.
\<close>

definition player_stats_route :: "int \<Rightarrow> request \<Rightarrow> js_string option \<Rightarrow> failure + response" where
  "player_stats_route now c playerId =
     (case requireAuth c of
        Respond r \<Rightarrow> Inr r
      | Next \<Rightarrow> player_stats_handler now playerId)"

section \<open>The application\<close>

datatype route_id = CatalogRoute | PlayerStatsRoute | RootRoute | HealthRoute

text \<open>
  What a request meets outside the application: the outcome of \<open>GenerateShop()\<close> and
  whether it settles only after the 30 s timer of the timeout middleware has fired, the
  readings of the process, and the clock read by a second call of \<open>onError\<close>.
\<close>

record env =
  shop :: "failure + js_value"
  process :: process_info
  shop_late :: bool
  clock_retry :: int

text \<open>
  The dispatcher over the routes registered so far. \<open>None\<close>: no built-in handler takes
  the request, which goes to a route loaded by \<open>LoadRoutes\<close> or to the not-found
  handler, both collaborators.
\<close>

definition dispatch :: "route_id list \<Rightarrow> env \<Rightarrow> int \<Rightarrow> request \<Rightarrow> (failure + response) option" where
  "dispatch rs e now c =
     (case target c of
        Catalog \<Rightarrow>
          if CatalogRoute \<in> set rs then Some (catalog_handler (shop e)) else None
      | PlayerStats playerId \<Rightarrow>
          if PlayerStatsRoute \<in> set rs then Some (player_stats_route now c playerId) else None
      | Root \<Rightarrow>
          if RootRoute \<in> set rs then Some (Inr (root_handler now (process e))) else None
      | Health \<Rightarrow>
          if HealthRoute \<in> set rs then Some (Inr (health_handler now)) else None
      | Unmatched \<Rightarrow> None)"

text \<open>
  What a request comes to: an answer of the application; a collaborator's turn (a route
  of \<open>LoadRoutes\<close> or the not-found handler); or a failure thrown on out of \<open>app.fetch\<close>,
  for which the application builds no answer.
\<close>

datatype outcome = Responded response | Delegated | Rethrown failure

text \<open>
  What the framework does with a failure thrown below a middleware. Only an \<open>Error\<close>
  instance is handed to \<open>onError\<close>; any other value is thrown on. When \<open>onError\<close> itself
  throws, the failure is caught one middleware further out and handed to \<open>onError\<close>
  again, which reads the clock again.
\<close>

definition handle_error :: "env \<Rightarrow> int \<Rightarrow> failure \<Rightarrow> outcome" where
  "handle_error e now err =
     (case err of
        NonError v \<Rightarrow> Rethrown (NonError v)
      | _ \<Rightarrow>
        (case onError now err of
           Inr r \<Rightarrow> Responded r
         | Inl err' \<Rightarrow>
           (case onError (clock_retry e) err' of
              Inr r \<Rightarrow> Responded r
            | Inl err'' \<Rightarrow> Rethrown err'')))"

text \<open>
  \<open>timeout(30000)\<close>: what runs below it races a timer of 30 s; when the timer fires first
  the middleware throws \<open>HTTPException(504, 'Gateway Timeout')\<close>.
\<close>

definition timeout :: "bool \<Rightarrow> (failure + response) option \<Rightarrow> (failure + response) option" where
  "timeout fired res =
     (if fired then Some (Inl (HTTPException 504 (lit ''Gateway Timeout''))) else res)"

text \<open>
  Of what runs below the timeout, the limiter, the gate and the handlers of the
  player-stats, root and health routes await nothing and settle at once. Only the catalog
  handler awaits a collaborator, so the timer can fire first only there.
\<close>

definition timer_fires :: "route_id list \<Rightarrow> env \<Rightarrow> request \<Rightarrow> bool" where
  "timer_fires rs e c = (target c = Catalog \<and> CatalogRoute \<in> set rs \<and> shop_late e)"

text \<open>
  One request through \<open>app.fetch\<close>: the timeout, the limiter \<open>rateLimit()\<close> with its
  default arguments, the dispatcher, and the handling of what is thrown. \<open>now\<close> is the
  clock the limiter reads, \<open>later\<close> the clock read when the answer is built. The other
  middleware of the framework registered before the limiter (CORS, logger, secure
  headers, pretty JSON) is not unfolded; the requests are those it passes on.
\<close>

definition app_fetch :: "route_id list \<Rightarrow> store \<Rightarrow> env \<Rightarrow> int \<Rightarrow> int \<Rightarrow> request \<Rightarrow> store \<times> outcome" where
  "app_fetch rs st e now later c =
     (case rateLimit default_windowMs default_max st now c of
        (st', Respond r) \<Rightarrow> (st', Responded r)
      | (st', Next) \<Rightarrow>
          (st',
           case timeout (timer_fires rs e c) (dispatch rs e later c) of
             None \<Rightarrow> Delegated
           | Some (Inl err) \<Rightarrow> handle_error e later err
           | Some (Inr r) \<Rightarrow> Responded r))"

section \<open>Startup\<close>

datatype subsystem = Bot | Matchmaker

text \<open>
  What the module does at its top level, in order. \<open>Serve\<close> is the default export
  \<open>{ port, fetch: app.fetch }\<close>, from which the runtime answers requests.
\<close>

datatype event =
    Connected
  | RoutesLoaded
  | Registered route_id
  | NotFoundInstalled
  | ImportAttempt subsystem
  | LoggedListening
  | Serve

text \<open>The collaborators of startup: \<open>None\<close> when the call returns, \<open>Some e\<close> when it throws.\<close>

record collaborators =
  connect :: "failure option"
  loadRoutes :: "failure option"
  import_of :: "subsystem \<Rightarrow> failure option"

record server_state =
  trace :: "event list"
  routes :: "route_id list"
  loaded :: "subsystem list"

definition initial_state :: server_state where
  "initial_state = \<lparr>trace = [], routes = [], loaded = []\<rparr>"

definition log_event :: "event \<Rightarrow> server_state \<Rightarrow> server_state" where
  "log_event ev s = s\<lparr>trace := trace s @ [ev]\<rparr>"

definition register :: "route_id \<Rightarrow> server_state \<Rightarrow> server_state" where
  "register r s = log_event (Registered r) (s\<lparr>routes := routes s @ [r]\<rparr>)"

definition startServer :: "collaborators \<Rightarrow> server_state \<Rightarrow> failure + server_state" where
  "startServer co s =
     (case connect co of
        Some e \<Rightarrow> Inl e
      | None \<Rightarrow>
        (case loadRoutes co of
           Some e \<Rightarrow> Inl e
         | None \<Rightarrow>
             Inr (log_event NotFoundInstalled
                   (register HealthRoute
                     (register RootRoute
                       (register PlayerStatsRoute
                         (register CatalogRoute
                           (log_event RoutesLoaded (log_event Connected s)))))))))"

text \<open>\<open>try { await import(...) } catch {}\<close>\<close>

definition try_import :: "collaborators \<Rightarrow> subsystem \<Rightarrow> server_state \<Rightarrow> server_state" where
  "try_import co sub s =
     (case import_of co sub of
        None \<Rightarrow> (log_event (ImportAttempt sub) s)\<lparr>loaded := loaded s @ [sub]\<rparr>
      | Some e \<Rightarrow> log_event (ImportAttempt sub) s)"

text \<open>
  The top level of the module. A failure of \<open>startServer\<close> leaves the module without its
  default export. The port read from the environment is not part of the model.
\<close>

definition main :: "collaborators \<Rightarrow> failure + server_state" where
  "main co =
     (case startServer co initial_state of
        Inl e \<Rightarrow> Inl e
      | Inr s \<Rightarrow>
          Inr (log_event Serve
                (log_event LoggedListening
                  (try_import co Matchmaker (try_import co Bot s)))))"

text \<open>Whether the first \<open>a\<close> of a trace has a \<open>b\<close> after it.\<close>

fun precedes :: "'a \<Rightarrow> 'a \<Rightarrow> 'a list \<Rightarrow> bool" where
  "precedes a b [] = False"
| "precedes a b (x # xs) = (if x = a then b \<in> set xs else precedes a b xs)"

section \<open>Sample inputs\<close>

definition sample_client :: request where
  "sample_client = \<lparr>target = Root, headers = [''CF-Connecting-IP'' \<mapsto> lit ''1.2.3.4'']\<rparr>"

definition empty_cf_request :: request where
  "empty_cf_request =
     \<lparr>target = Root,
      headers = [''CF-Connecting-IP'' \<mapsto> [], ''X-Forwarded-For'' \<mapsto> lit ''1.2.3.4'']\<rparr>"

definition spent_store :: store where
  "spent_store = [lit ''1.2.3.4'' \<mapsto> \<lparr>count = 100, resetTime = 1000\<rparr>]"

definition spoofed_client :: request where
  "spoofed_client =
     \<lparr>target = Root,
      headers = [''CF-Connecting-IP'' \<mapsto> lit ''1.2.3.4'',
                 ''X-Forwarded-For'' \<mapsto> lit ''6.6.6.6'']\<rparr>"

text \<open>The routes registered once \<open>startServer\<close> has returned.\<close>

definition builtin_routes :: "route_id list" where
  "builtin_routes = [CatalogRoute, PlayerStatsRoute, RootRoute, HealthRoute]"

definition sample_env :: env where
  "sample_env = \<lparr>shop = Inr JNull,
                 process = \<lparr>uptime = 0, heapUsed = 0, heapTotal = 0\<rparr>,
                 shop_late = False, clock_retry = 2\<rparr>"

definition stocked_env :: env where
  "stocked_env = \<lparr>shop = Inr (JObj [(''storefronts'', JArr [])]),
                  process = \<lparr>uptime = 0, heapUsed = 0, heapTotal = 0\<rparr>,
                  shop_late = False, clock_retry = 2\<rparr>"

text \<open>The same catalog, returned only after the 30 s timer has fired.\<close>

definition slow_env :: env where
  "slow_env = stocked_env\<lparr>shop_late := True\<rparr>"



definition unauth_stats_request :: request where
  "unauth_stats_request =
     \<lparr>target = PlayerStats (Some (lit ''ab'')),
      headers = [''CF-Connecting-IP'' \<mapsto> lit ''1.2.3.4'']\<rparr>"

definition bearer_stats_request :: "js_string \<Rightarrow> request" where
  "bearer_stats_request playerId =
     \<lparr>target = PlayerStats (Some playerId),
      headers = [''CF-Connecting-IP'' \<mapsto> lit ''1.2.3.4'',
                 ''Authorization'' \<mapsto> lit ''Bearer not-a-token'']\<rparr>"

definition catalog_request :: request where
  "catalog_request = \<lparr>target = Catalog, headers = Map.empty\<rparr>"

definition health_request :: request where
  "health_request = \<lparr>target = Health, headers = Map.empty\<rparr>"


definition all_up :: collaborators where
  "all_up = \<lparr>connect = None, loadRoutes = None, import_of = (\<lambda>sub. None)\<rparr>"

definition imports_fail :: collaborators where
  "imports_fail = \<lparr>connect = None, loadRoutes = None,
                    import_of = (\<lambda>sub. Some (OtherError (lit ''Cannot find module'')))\<rparr>"

definition startup_trace :: "event list" where
  "startup_trace =
     [Connected, RoutesLoaded,
      Registered CatalogRoute, Registered PlayerStatsRoute,
      Registered RootRoute, Registered HealthRoute,
      NotFoundInstalled,
      ImportAttempt Bot, ImportAttempt Matchmaker,
      LoggedListening, Serve]"

section \<open>Properties of the rate limiter\<close>

lemma client_key_sample_client: "client_key sample_client = lit ''1.2.3.4''"
  by (simp add: client_key_def sample_client_def req_header_def lit_def)

lemma rateLimit_other_key:
  "k \<noteq> client_key c \<Longrightarrow> fst (rateLimit windowMs maxN st now c) k = st k"
  by (simp add: rateLimit_def Let_def split: option.splits)

text \<open>
  Inside an open window: with the record \<open>r\<close> stored for \<open>k\<close> and every later arrival of
  \<open>k\<close> no later than its \<open>resetTime\<close>, the \<open>j\<close>-th of these arrivals is admitted exactly
  when \<open>count r + j < maxN\<close>, whatever the other clients do in between.
\<close>

lemma run_open_window:
  "st k = Some r \<Longrightarrow> \<forall>t \<in> set (arrivals_of k evs). t \<le> resetTime r \<Longrightarrow>
   decisions_of k (run windowMs maxN st evs) =
     map (\<lambda>j. if count r + int j < maxN then Next else Respond too_many_requests)
       [0..<length (arrivals_of k evs)]"
proof (induction evs arbitrary: st r)
  case Nil
  then show ?case by (simp add: decisions_of_def arrivals_of_def)
next
  case (Cons ev evs)
  obtain c now where ev: "ev = (c, now)" by (cases ev)
  obtain st' d where step: "rateLimit windowMs maxN st now c = (st', d)"
    by (cases "rateLimit windowMs maxN st now c")
  show ?case
  proof (cases "client_key c = k")
    case False
    then have "st' k = st k"
      using rateLimit_other_key[of k c windowMs maxN st now] step by simp
    with Cons.prems False have "decisions_of k (run windowMs maxN st' evs) =
     map (\<lambda>j. if count r + int j < maxN then Next else Respond too_many_requests)
       [0..<length (arrivals_of k evs)]"
      by (intro Cons.IH) (auto simp: arrivals_of_def ev)
    then show ?thesis using False by (simp add: ev step decisions_of_def arrivals_of_def)
  next
    case True
    have now: "now \<le> resetTime r"
      and rest: "\<forall>t \<in> set (arrivals_of k evs). t \<le> resetTime r"
      using Cons.prems(2) True by (auto simp: arrivals_of_def ev)
    have len: "arrivals_of k (ev # evs) = now # arrivals_of k evs"
      using True by (simp add: arrivals_of_def ev)
    have dec: "decisions_of k (run windowMs maxN st (ev # evs)) =
        d # decisions_of k (run windowMs maxN st' evs)"
      using True by (simp add: ev step decisions_of_def)
    show ?thesis
    proof (cases "count r \<ge> maxN")
      case full: True
      have "st' = st" "d = Respond too_many_requests"
        using step Cons.prems(1) True now full by (auto simp: rateLimit_def Let_def)
      moreover have "decisions_of k (run windowMs maxN st evs) =
         map (\<lambda>j. if count r + int j < maxN then Next else Respond too_many_requests)
         [0..<length (arrivals_of k evs)]"
        using Cons.IH[of st r] Cons.prems(1) rest by blast
      ultimately show ?thesis using full
        by (simp add: dec len map_upt_Suc del: upt_Suc)
    next
      case room: False
      let ?r' = "r\<lparr>count := count r + 1\<rparr>"
      have "st' k = Some ?r'" "d = Next"
        using step Cons.prems(1) True now room by (auto simp: rateLimit_def Let_def)
      moreover have "\<forall>t \<in> set (arrivals_of k evs). t \<le> resetTime ?r'"
        using rest by simp
      ultimately have "decisions_of k (run windowMs maxN st' evs) =
         map (\<lambda>j. if count ?r' + int j < maxN then Next else Respond too_many_requests)
         [0..<length (arrivals_of k evs)]"
        by (intro Cons.IH)
      then show ?thesis using room \<open>d = Next\<close>
        by (simp add: dec len map_upt_Suc add.assoc del: upt_Suc)
    qed
  qed
qed

text \<open>
  From a fresh start: \<open>k\<close> has no record, or an expired one, when its first request
  arrives at \<open>t1\<close>, and its later requests arrive no later than \<open>t1 + windowMs\<close>.
\<close>

lemma run_fresh_window:
  "arrivals_of k evs = t1 # ts \<Longrightarrow>
   st k = None \<or> (\<exists>r. st k = Some r \<and> resetTime r < t1) \<Longrightarrow>
   \<forall>t \<in> set ts. t \<le> t1 + windowMs \<Longrightarrow>
   decisions_of k (run windowMs maxN st evs) =
     Next # map (\<lambda>j. if 1 + int j < maxN then Next else Respond too_many_requests)
              [0..<length ts]"
proof (induction evs arbitrary: st)
  case Nil
  then show ?case by (simp add: arrivals_of_def)
next
  case (Cons ev evs)
  obtain c now where ev: "ev = (c, now)" by (cases ev)
  obtain st' d where step: "rateLimit windowMs maxN st now c = (st', d)"
    by (cases "rateLimit windowMs maxN st now c")
  show ?case
  proof (cases "client_key c = k")
    case False
    then have same: "st' k = st k"
      using rateLimit_other_key[of k c windowMs maxN st now] step by simp
    have "arrivals_of k evs = t1 # ts"
      using Cons.prems(1) False by (simp add: arrivals_of_def ev)
    moreover have "st' k = None \<or> (\<exists>r. st' k = Some r \<and> resetTime r < t1)"
      using Cons.prems(2) same by simp
    ultimately have "decisions_of k (run windowMs maxN st' evs) =
      Next # map (\<lambda>j. if 1 + int j < maxN then Next else Respond too_many_requests)
               [0..<length ts]"
      using Cons.prems(3) by (intro Cons.IH)
    then show ?thesis using False by (simp add: ev step decisions_of_def)
  next
    case True
    have now: "now = t1" and rest: "arrivals_of k evs = ts"
      using Cons.prems(1) True by (simp_all add: arrivals_of_def ev)
    let ?r = "\<lparr>count = 1, resetTime = t1 + windowMs\<rparr>"
    have "rateLimit windowMs maxN st now c = (st(client_key c \<mapsto> ?r), Next)"
      using Cons.prems(2) True now
      by (auto simp add: rateLimit_def Let_def split: option.splits)
    with step True have st': "st' k = Some ?r" and d: "d = Next" by auto
    have "\<forall>t \<in> set (arrivals_of k evs). t \<le> resetTime ?r"
      using Cons.prems(3) rest by simp
    with run_open_window[of st' k ?r evs windowMs maxN] st' rest
    have "decisions_of k (run windowMs maxN st' evs) =
      map (\<lambda>j. if 1 + int j < maxN then Next else Respond too_many_requests) [0..<length ts]"
      by simp
    then show ?thesis using True d by (simp add: ev step decisions_of_def)
  qed
qed

lemma arrivals_of_replicate:
  "arrivals_of k (replicate n (c, t)) = (if client_key c = k then replicate n t else [])"
  by (induction n) (simp_all add: arrivals_of_def)

lemma all_admitted:
  "int (Suc n) \<le> m \<Longrightarrow>
   map (\<lambda>j. if 1 + int j < m then Next else r) [0..<n] = replicate n Next"
  by (induction n) (auto simp: replicate_append_same)

lemma last_rejected:
  "0 < n \<Longrightarrow>
   Next # map (\<lambda>j. if 1 + int j < int n then Next else r) [0..<n] = replicate n Next @ [r]"
  by (auto simp: list_eq_iff_nth_eq nth_append nth_Cons')

text \<open>
  C1. A client whose first request opens a window (no record, or an expired one) and
  whose requests all arrive within that window is admitted on every request when it
  issues at most \<open>max\<close> of them; with the default configuration (15 minutes, 100), of
  101 such requests the first 100 are admitted and the 101st is answered 429 with the
  body \<open>{ error: 'Too many requests' }\<close>. Requests of other clients may arrive in
  between.
\<close>

theorem rateLimit_admits_within_window:
  assumes "arrivals_of k evs = t1 # ts"
    and "st k = None \<or> (\<exists>r. st k = Some r \<and> resetTime r < t1)"
    and "\<forall>t \<in> set ts. t \<le> t1 + windowMs"
  shows "(int (length (t1 # ts)) \<le> maxN \<longrightarrow>
            decisions_of k (run windowMs maxN st evs) = replicate (length (t1 # ts)) Next)
       \<and> (windowMs = default_windowMs \<and> maxN = default_max \<and> length (t1 # ts) = 101 \<longrightarrow>
            decisions_of k (run windowMs maxN st evs) =
              replicate 100 Next
                @ [Respond \<lparr>status = 429,
                            body = JObj [(''error'', JStr (lit ''Too many requests''))],
                            resp_headers = []\<rparr>])"
proof -
  let ?f = "\<lambda>j. if 1 + int j < maxN then Next else Respond too_many_requests"
  have eq: "decisions_of k (run windowMs maxN st evs) = Next # map ?f [0..<length ts]"
    using run_fresh_window[of k evs t1 ts st windowMs maxN] assms by blast
  have "decisions_of k (run windowMs maxN st evs) = replicate (length (t1 # ts)) Next"
    if "int (length (t1 # ts)) \<le> maxN"
  proof -
    have h: "map ?f [0..<length ts] = replicate (length ts) Next"
      using that by (intro all_admitted) simp
    have "Next # map ?f [0..<length ts] = replicate (length (t1 # ts)) Next"
      by (simp only: h length_Cons replicate_Suc)
    with eq show ?thesis by (rule trans)
  qed
  moreover have "decisions_of k (run windowMs maxN st evs) =
      replicate 100 Next
        @ [Respond \<lparr>status = 429,
                    body = JObj [(''error'', JStr (lit ''Too many requests''))],
                    resp_headers = []\<rparr>]"
    if "maxN = default_max" "length (t1 # ts) = 101"
  proof -
    have len: "length ts = 100" using that(2) by simp
    have pos: "0 < length ts" using len by simp
    have m: "maxN = int (length ts)" using that(1) len by (simp add: default_max_def)
    have "decisions_of k (run windowMs maxN st evs) = Next # map ?f [0..<length ts]"
      by (rule eq)
    also have "\<dots> = replicate (length ts) Next @ [Respond too_many_requests]"
      unfolding m by (rule last_rejected[OF pos])
    finally show ?thesis by (simp only: len too_many_requests_def json_def)
  qed
  ultimately show ?thesis by blast
qed

theorem rateLimit_admits_within_window_witness:
  "decisions_of (lit ''1.2.3.4'')
     (run default_windowMs default_max Map.empty (replicate 101 (sample_client, 0))) =
     replicate 100 Next
       @ [Respond \<lparr>status = 429,
                   body = JObj [(''error'', JStr (lit ''Too many requests''))],
                   resp_headers = []\<rparr>]
   \<and> decisions_of (lit ''1.2.3.4'')
     (run default_windowMs default_max Map.empty [(sample_client, 0), (sample_client, 5)]) =
     [Next, Next]"
proof -
  have h: "(101::nat) = Suc 100" by simp
  have "replicate 101 (0::int) = 0 # replicate 100 0"
    unfolding h by (rule replicate_Suc)
  then have a: "arrivals_of (lit ''1.2.3.4'') (replicate 101 (sample_client, 0)) =
      0 # replicate 100 0"
    by (simp add: arrivals_of_replicate client_key_sample_client)
  have b: "(Map.empty :: store) (lit ''1.2.3.4'') = None \<or>
       (\<exists>r. (Map.empty :: store) (lit ''1.2.3.4'') = Some r \<and> resetTime r < 0)"
    by simp
  have c: "\<forall>t \<in> set (replicate 100 (0::int)). t \<le> 0 + default_windowMs"
    by (simp add: default_windowMs_def)
  have a2: "arrivals_of (lit ''1.2.3.4'') [(sample_client, 0), (sample_client, 5)] = [0, 5]"
    by (simp add: arrivals_of_def client_key_sample_client)
  have c2: "\<forall>t \<in> set [5::int]. t \<le> 0 + default_windowMs"
    by (simp add: default_windowMs_def)
  from rateLimit_admits_within_window
         [of "lit ''1.2.3.4''" "replicate 101 (sample_client, 0)" 0 "replicate 100 0"
             Map.empty default_windowMs default_max] a b c
  have "decisions_of (lit ''1.2.3.4'')
     (run default_windowMs default_max Map.empty (replicate 101 (sample_client, 0))) =
     replicate 100 Next
       @ [Respond \<lparr>status = 429,
                   body = JObj [(''error'', JStr (lit ''Too many requests''))],
                   resp_headers = []\<rparr>]"
    by simp
  moreover from rateLimit_admits_within_window
         [of "lit ''1.2.3.4''" "[(sample_client, 0), (sample_client, 5)]" 0 "[5]"
             Map.empty default_windowMs default_max] a2 b c2
  have "decisions_of (lit ''1.2.3.4'')
     (run default_windowMs default_max Map.empty [(sample_client, 0), (sample_client, 5)]) =
     [Next, Next]"
    by (simp add: default_max_def)
  ultimately show ?thesis by (rule conjI)
qed

text \<open>
  C2. When the key has no record, or the clock is past the \<open>resetTime\<close> of its record,
  the limiter stores a new record with \<open>count = 1\<close> and \<open>resetTime = now + windowMs\<close> for
  the key and admits the request.
\<close>

theorem rateLimit_opens_window:
  assumes "st (client_key c) = None \<or> (\<exists>r. st (client_key c) = Some r \<and> now > resetTime r)"
  shows "rateLimit windowMs maxN st now c =
           (st(client_key c \<mapsto> \<lparr>count = 1, resetTime = now + windowMs\<rparr>), Next)"
  using assms by (auto simp add: rateLimit_def Let_def split: option.splits)

theorem rateLimit_opens_window_witness:
  "rateLimit default_windowMs default_max spent_store 1001 sample_client =
     (spent_store(lit ''1.2.3.4'' \<mapsto> \<lparr>count = 1, resetTime = 1001 + default_windowMs\<rparr>), Next)
   \<and> rateLimit default_windowMs default_max Map.empty 0 sample_client =
     ([lit ''1.2.3.4'' \<mapsto> \<lparr>count = 1, resetTime = 0 + default_windowMs\<rparr>], Next)"
proof -
  have "spent_store (client_key sample_client) = None \<or>
        (\<exists>r. spent_store (client_key sample_client) = Some r \<and> 1001 > resetTime r)"
    by (simp add: client_key_sample_client spent_store_def)
  with rateLimit_opens_window
         [of spent_store sample_client 1001 default_windowMs default_max]
  have "rateLimit default_windowMs default_max spent_store 1001 sample_client =
     (spent_store(lit ''1.2.3.4'' \<mapsto> \<lparr>count = 1, resetTime = 1001 + default_windowMs\<rparr>), Next)"
    by (simp add: client_key_sample_client)
  moreover have "(Map.empty :: store) (client_key sample_client) = None \<or>
        (\<exists>r. (Map.empty :: store) (client_key sample_client) = Some r \<and> 0 > resetTime r)"
    by simp
  with rateLimit_opens_window
         [of Map.empty sample_client 0 default_windowMs default_max]
  have "rateLimit default_windowMs default_max Map.empty 0 sample_client =
     ([lit ''1.2.3.4'' \<mapsto> \<lparr>count = 1, resetTime = 0 + default_windowMs\<rparr>], Next)"
    by (simp add: client_key_sample_client)
  ultimately show ?thesis by (rule conjI)
qed

text \<open>
  C9. A rejection (a stored count of at least \<open>max\<close> in a window that has not expired)
  leaves the store as it was; whenever the limiter answers the request itself the store
  is unchanged; and no decision touches the record of another key.
\<close>

theorem rateLimit_frame:
  "(\<forall>r. st (client_key c) = Some r \<and> \<not> now > resetTime r \<and> count r \<ge> maxN \<longrightarrow>
        rateLimit windowMs maxN st now c = (st, Respond too_many_requests))
   \<and> (\<forall>resp. snd (rateLimit windowMs maxN st now c) = Respond resp \<longrightarrow>
        fst (rateLimit windowMs maxN st now c) = st)
   \<and> (\<forall>k. k \<noteq> client_key c \<longrightarrow> fst (rateLimit windowMs maxN st now c) k = st k)"
  by (auto simp add: rateLimit_def Let_def split: option.splits)

theorem rateLimit_frame_witness:
  "rateLimit default_windowMs default_max spent_store 500 sample_client =
     (spent_store, Respond too_many_requests)
   \<and> fst (rateLimit default_windowMs default_max spent_store 500 sample_client) =
     spent_store
   \<and> fst (rateLimit default_windowMs default_max spent_store 2000 sample_client)
       (lit ''anonymous'') = spent_store (lit ''anonymous'')"
proof -
  note fr = rateLimit_frame[of spent_store sample_client 500 default_max default_windowMs]
  have pre: "spent_store (client_key sample_client) = Some \<lparr>count = 100, resetTime = 1000\<rparr>
      \<and> \<not> 500 > resetTime \<lparr>count = 100, resetTime = 1000\<rparr>
      \<and> count \<lparr>count = 100, resetTime = 1000\<rparr> \<ge> default_max"
    by (simp add: client_key_sample_client spent_store_def default_max_def)
  have one: "rateLimit default_windowMs default_max spent_store 500 sample_client =
     (spent_store, Respond too_many_requests)"
    using fr pre by blast
  then have "snd (rateLimit default_windowMs default_max spent_store 500 sample_client) =
     Respond too_many_requests"
    by simp
  then have two: "fst (rateLimit default_windowMs default_max spent_store 500 sample_client) =
     spent_store"
    using fr by blast
  have "lit ''anonymous'' \<noteq> client_key sample_client"
    by (simp add: client_key_sample_client lit_def)
  then have three:
    "fst (rateLimit default_windowMs default_max spent_store 2000 sample_client)
       (lit ''anonymous'') = spent_store (lit ''anonymous'')"
    using rateLimit_frame[of spent_store sample_client 2000 default_max default_windowMs]
    by blast
  from one two three show ?thesis by blast
qed

text \<open>
  C10. The client key is the \<open>CF-Connecting-IP\<close> header when it is present and not
  empty, otherwise the \<open>X-Forwarded-For\<close> header when it is present and not empty,
  otherwise \<open>'anonymous'\<close>. Two requests that carry the same non-empty
  \<open>CF-Connecting-IP\<close> have the same key, and the limiter does the same on the same
  store for both, whatever their \<open>X-Forwarded-For\<close>.
\<close>

theorem client_key_prefers_cf:
  "(\<forall>v. req_header c ''CF-Connecting-IP'' = Some v \<and> v \<noteq> [] \<longrightarrow> client_key c = v)
   \<and> (\<not> truthy_str (req_header c ''CF-Connecting-IP'') \<longrightarrow>
        (\<forall>v. req_header c ''X-Forwarded-For'' = Some v \<and> v \<noteq> [] \<longrightarrow> client_key c = v))
   \<and> (\<not> truthy_str (req_header c ''CF-Connecting-IP'') \<and>
       \<not> truthy_str (req_header c ''X-Forwarded-For'') \<longrightarrow> client_key c = lit ''anonymous'')
   \<and> (\<forall>c' v. req_header c ''CF-Connecting-IP'' = Some v \<and>
              req_header c' ''CF-Connecting-IP'' = Some v \<and> v \<noteq> [] \<longrightarrow>
         client_key c = client_key c' \<and>
         rateLimit windowMs maxN st now c = rateLimit windowMs maxN st now c')"
  by (auto simp add: client_key_def truthy_str_def rateLimit_def Let_def
           split: option.splits list.splits)

theorem client_key_prefers_cf_witness:
  "client_key sample_client = lit ''1.2.3.4''
   \<and> client_key sample_client = client_key spoofed_client
   \<and> rateLimit default_windowMs default_max spent_store 500 sample_client =
       rateLimit default_windowMs default_max spent_store 500 spoofed_client
   \<and> client_key empty_cf_request = lit ''1.2.3.4''
   \<and> client_key health_request = lit ''anonymous''"
proof -
  have a: "req_header sample_client ''CF-Connecting-IP'' = Some (lit ''1.2.3.4'')"
    by (simp add: sample_client_def req_header_def)
  have b: "req_header spoofed_client ''CF-Connecting-IP'' = Some (lit ''1.2.3.4'')"
    by (simp add: spoofed_client_def req_header_def)
  have ne: "lit ''1.2.3.4'' \<noteq> []" by (simp add: lit_def)
  note th = client_key_prefers_cf
              [of sample_client default_windowMs default_max spent_store 500]
  have one: "client_key sample_client = lit ''1.2.3.4''"
    using th a ne by blast
  have two: "client_key sample_client = client_key spoofed_client
     \<and> rateLimit default_windowMs default_max spent_store 500 sample_client =
       rateLimit default_windowMs default_max spent_store 500 spoofed_client"
    using th a b ne by blast
  have c: "\<not> truthy_str (req_header empty_cf_request ''CF-Connecting-IP'')"
    and d: "req_header empty_cf_request ''X-Forwarded-For'' = Some (lit ''1.2.3.4'')"
    by (simp_all add: empty_cf_request_def req_header_def truthy_str_def)
  have three: "client_key empty_cf_request = lit ''1.2.3.4''"
    using client_key_prefers_cf[of empty_cf_request] c d ne by blast
  have "\<not> truthy_str (req_header health_request ''CF-Connecting-IP'')"
       "\<not> truthy_str (req_header health_request ''X-Forwarded-For'')"
    by (simp_all add: health_request_def req_header_def truthy_str_def)
  then have four: "client_key health_request = lit ''anonymous''"
    using client_key_prefers_cf[of health_request] by blast
  from one two three four show ?thesis by blast
qed

text \<open>
  A \<open>CF-Connecting-IP\<close> header that is present with an empty value does not give the
  key: \<open>||\<close> passes over the empty string, and the key comes from
  \<open>X-Forwarded-For\<close>.
\<close>

theorem client_key_empty_cf_counterexample:
  "req_header empty_cf_request ''CF-Connecting-IP'' = Some []
   \<and> req_header empty_cf_request ''X-Forwarded-For'' = Some (lit ''1.2.3.4'')
   \<and> client_key empty_cf_request = lit ''1.2.3.4''
   \<and> client_key empty_cf_request \<noteq> []"
  by (simp add: client_key_def empty_cf_request_def req_header_def lit_def)

section \<open>Properties of the error handler and the routes\<close>

lemma client_key_catalog_request: "client_key catalog_request = lit ''anonymous''"
  by (simp add: client_key_def catalog_request_def req_header_def)

lemma client_key_unauth_stats_request: "client_key unauth_stats_request = lit ''1.2.3.4''"
  by (simp add: client_key_def unauth_stats_request_def req_header_def lit_def)

lemma client_key_bearer_stats_request: "client_key (bearer_stats_request p) = lit ''1.2.3.4''"
  by (simp add: client_key_def bearer_stats_request_def req_header_def lit_def)

lemma requireAuth_bearer_stats_request: "requireAuth (bearer_stats_request p) = Next"
  by (simp add: requireAuth_def bearer_stats_request_def req_header_def startsWith_def lit_def)

lemma onError_in_range:
  "200 \<le> code \<Longrightarrow> code \<le> 599 \<Longrightarrow> code \<notin> {204, 205, 304} \<Longrightarrow>
   onError now (HTTPException code msg) =
     Inr \<lparr>status = code,
          body = JObj [(''error'', JStr msg), (''status'', JNum (of_int code)),
                       (''timestamp'', JIso now)],
          resp_headers = []\<rparr>"
  by (simp add: onError_def c_json_def null_body_status_def json_def)








text \<open>
  C4. For a request to the player-stats route that the limiter admits: without an
  \<open>Authorization\<close> header, or with one that does not start with \<open>'Bearer '\<close>, the answer
  is 401 with the body \<open>{ error: 'Unauthorized' }\<close>, whatever the path parameter; with
  a header that starts with \<open>'Bearer '\<close> the gate calls \<open>next()\<close> and the handler
  decides, whatever follows the prefix.
\<close>

theorem player_stats_requires_bearer:
  assumes "target c = PlayerStats playerId"
    and "PlayerStatsRoute \<in> set rs"
    and "rateLimit default_windowMs default_max st now c = (st', Next)"
  shows "(req_header c ''Authorization'' = None \<or>
          (\<exists>a. req_header c ''Authorization'' = Some a \<and> \<not> startsWith a (lit ''Bearer '')) \<longrightarrow>
            app_fetch rs st e now later c =
              (st', Responded \<lparr>status = 401,
                               body = JObj [(''error'', JStr (lit ''Unauthorized''))],
                               resp_headers = []\<rparr>))
       \<and> (\<forall>a. req_header c ''Authorization'' = Some a \<and> startsWith a (lit ''Bearer '') \<longrightarrow>
            requireAuth c = Next \<and>
            app_fetch rs st e now later c =
              (st', case player_stats_handler later playerId of
                      Inl err \<Rightarrow> handle_error e later err
                    | Inr r \<Rightarrow> Responded r))"
  using assms
  by (auto simp add: app_fetch_def timeout_def timer_fires_def dispatch_def
        player_stats_route_def requireAuth_def unauthorized_def json_def
        split: sum.splits)

theorem player_stats_requires_bearer_witness:
  "app_fetch builtin_routes Map.empty sample_env 0 1 unauth_stats_request =
     ([lit ''1.2.3.4'' \<mapsto> \<lparr>count = 1, resetTime = 0 + default_windowMs\<rparr>],
      Responded \<lparr>status = 401,
                 body = JObj [(''error'', JStr (lit ''Unauthorized''))],
                 resp_headers = []\<rparr>)
   \<and> requireAuth (bearer_stats_request (lit ''abc'')) = Next"
proof -
  have t: "target unauth_stats_request = PlayerStats (Some (lit ''ab''))"
    by (simp add: unauth_stats_request_def)
  have r: "PlayerStatsRoute \<in> set builtin_routes" by (simp add: builtin_routes_def)
  have adm: "rateLimit default_windowMs default_max Map.empty 0 unauth_stats_request =
      ([lit ''1.2.3.4'' \<mapsto> \<lparr>count = 1, resetTime = 0 + default_windowMs\<rparr>], Next)"
    by (simp add: rateLimit_def client_key_unauth_stats_request)
  have none: "req_header unauth_stats_request ''Authorization'' = None"
    by (simp add: unauth_stats_request_def req_header_def)
  have one: "app_fetch builtin_routes Map.empty sample_env 0 1 unauth_stats_request =
     ([lit ''1.2.3.4'' \<mapsto> \<lparr>count = 1, resetTime = 0 + default_windowMs\<rparr>],
      Responded \<lparr>status = 401,
                 body = JObj [(''error'', JStr (lit ''Unauthorized''))],
                 resp_headers = []\<rparr>)"
    using player_stats_requires_bearer[OF t r adm, of sample_env 1] none by blast
  have t2: "target (bearer_stats_request (lit ''abc'')) = PlayerStats (Some (lit ''abc''))"
    by (simp add: bearer_stats_request_def)
  have adm2: "rateLimit default_windowMs default_max Map.empty 0
       (bearer_stats_request (lit ''abc'')) =
      ([lit ''1.2.3.4'' \<mapsto> \<lparr>count = 1, resetTime = 0 + default_windowMs\<rparr>], Next)"
    by (simp add: rateLimit_def client_key_bearer_stats_request)
  have hdr: "req_header (bearer_stats_request (lit ''abc'')) ''Authorization'' =
        Some (lit ''Bearer not-a-token'')
      \<and> startsWith (lit ''Bearer not-a-token'') (lit ''Bearer '')"
    by (simp add: bearer_stats_request_def req_header_def startsWith_def lit_def)
  have two: "requireAuth (bearer_stats_request (lit ''abc'')) = Next"
    using player_stats_requires_bearer[OF t2 r adm2, of sample_env 1] hdr by blast
  from one two show ?thesis by (rule conjI)
qed

text \<open>
  The limiter runs before the gate: a client that has used up its window is answered 429
  on the player-stats route, with or without an \<open>Authorization\<close> header.
\<close>

theorem player_stats_rate_limited_counterexample:
  "target unauth_stats_request = PlayerStats (Some (lit ''ab''))
   \<and> req_header unauth_stats_request ''Authorization'' = None
   \<and> app_fetch builtin_routes spent_store sample_env 500 501 unauth_stats_request =
       (spent_store,
        Responded \<lparr>status = 429,
                   body = JObj [(''error'', JStr (lit ''Too many requests''))],
                   resp_headers = []\<rparr>)"
proof -
  have "rateLimit default_windowMs default_max spent_store 500 unauth_stats_request =
      (spent_store, Respond too_many_requests)"
    by (simp add: rateLimit_def client_key_unauth_stats_request spent_store_def default_max_def)
  then show ?thesis
    by (simp add: app_fetch_def too_many_requests_def json_def unauth_stats_request_def
          req_header_def)
qed

text \<open>
  C5. For a request to the player-stats route that the gate passes (the limiter has
  admitted it before): a \<open>playerId\<close> shorter than 3, or none, makes the handler throw
  \<open>HTTPException(400, 'Invalid player ID')\<close>, answered with status 400 and the
  envelope; a \<open>playerId\<close> of length 3 or more is answered 200 with the \<open>playerId\<close>
  unchanged in the body.
\<close>

theorem player_stats_validates_id:
  assumes "target c = PlayerStats playerId"
    and "PlayerStatsRoute \<in> set rs"
    and "rateLimit default_windowMs default_max st now c = (st', Next)"
    and "requireAuth c = Next"
  shows "(playerId = None \<or> (\<exists>p. playerId = Some p \<and> length p < 3) \<longrightarrow>
            player_stats_route later c playerId =
              Inl (HTTPException 400 (lit ''Invalid player ID'')) \<and>
            app_fetch rs st e now later c =
              (st', Responded \<lparr>status = 400,
                               body = JObj [(''error'', JStr (lit ''Invalid player ID'')),
                                            (''status'', JNum 400),
                                            (''timestamp'', JIso later)],
                               resp_headers = []\<rparr>))
       \<and> (\<forall>p. playerId = Some p \<and> 3 \<le> length p \<longrightarrow>
            app_fetch rs st e now later c =
              (st', Responded \<lparr>status = 200,
                               body = JObj [(''playerId'', JStr p),
                                            (''stats'', JObj [(''wins'', JNum 0),
                                                              (''kills'', JNum 0),
                                                              (''matches'', JNum 0)]),
                                            (''lastUpdated'', JIso later)],
                               resp_headers = []\<rparr>))"
proof -
  have "handle_error e later (HTTPException 400 (lit ''Invalid player ID'')) =
      Responded \<lparr>status = 400,
                 body = JObj [(''error'', JStr (lit ''Invalid player ID'')),
                              (''status'', JNum (of_int 400)),
                              (''timestamp'', JIso later)],
                 resp_headers = []\<rparr>"
    using onError_in_range[of 400 later "lit ''Invalid player ID''"]
    by (simp add: handle_error_def)
  then show ?thesis
    using assms
    by (auto simp add: app_fetch_def timeout_def timer_fires_def dispatch_def
          player_stats_route_def player_stats_handler_def truthy_str_def json_def)
qed

theorem player_stats_validates_id_witness:
  "app_fetch builtin_routes Map.empty sample_env 0 1 (bearer_stats_request (lit ''ab'')) =
     ([lit ''1.2.3.4'' \<mapsto> \<lparr>count = 1, resetTime = 0 + default_windowMs\<rparr>],
      Responded \<lparr>status = 400,
                 body = JObj [(''error'', JStr (lit ''Invalid player ID'')),
                              (''status'', JNum 400),
                              (''timestamp'', JIso 1)],
                 resp_headers = []\<rparr>)
   \<and> app_fetch builtin_routes Map.empty sample_env 0 1 (bearer_stats_request (lit ''abc'')) =
     ([lit ''1.2.3.4'' \<mapsto> \<lparr>count = 1, resetTime = 0 + default_windowMs\<rparr>],
      Responded \<lparr>status = 200,
                 body = JObj [(''playerId'', JStr (lit ''abc'')),
                              (''stats'', JObj [(''wins'', JNum 0),
                                                (''kills'', JNum 0),
                                                (''matches'', JNum 0)]),
                              (''lastUpdated'', JIso 1)],
                 resp_headers = []\<rparr>)"
proof -
  have r: "PlayerStatsRoute \<in> set builtin_routes" by (simp add: builtin_routes_def)
  have t: "target (bearer_stats_request p) = PlayerStats (Some p)" for p
    by (simp add: bearer_stats_request_def)
  have adm: "rateLimit default_windowMs default_max Map.empty 0 (bearer_stats_request p) =
      ([lit ''1.2.3.4'' \<mapsto> \<lparr>count = 1, resetTime = 0 + default_windowMs\<rparr>], Next)" for p
    by (simp add: rateLimit_def client_key_bearer_stats_request)
  have short: "length (lit ''ab'') < 3" and long: "3 \<le> length (lit ''abc'')"
    by (simp_all add: lit_def)
  from player_stats_validates_id
         [OF t r adm requireAuth_bearer_stats_request, of "lit ''ab''" 1 sample_env] short
  have one: "app_fetch builtin_routes Map.empty sample_env 0 1
               (bearer_stats_request (lit ''ab'')) =
     ([lit ''1.2.3.4'' \<mapsto> \<lparr>count = 1, resetTime = 0 + default_windowMs\<rparr>],
      Responded \<lparr>status = 400,
                 body = JObj [(''error'', JStr (lit ''Invalid player ID'')),
                              (''status'', JNum 400),
                              (''timestamp'', JIso 1)],
                 resp_headers = []\<rparr>)"
    by blast
  from player_stats_validates_id
         [OF t r adm requireAuth_bearer_stats_request, of "lit ''abc''" 1 sample_env] long
  have two: "app_fetch builtin_routes Map.empty sample_env 0 1
               (bearer_stats_request (lit ''abc'')) =
     ([lit ''1.2.3.4'' \<mapsto> \<lparr>count = 1, resetTime = 0 + default_windowMs\<rparr>],
      Responded \<lparr>status = 200,
                 body = JObj [(''playerId'', JStr (lit ''abc'')),
                              (''stats'', JObj [(''wins'', JNum 0),
                                                (''kills'', JNum 0),
                                                (''matches'', JNum 0)]),
                              (''lastUpdated'', JIso 1)],
                 resp_headers = []\<rparr>)"
    by blast
  from one two show ?thesis by (rule conjI)
qed

text \<open>
  C6. For a request to the catalog route whose handler runs and settles before the 30 s
  timer of the timeout middleware fires: when \<open>GenerateShop\<close> returns no result
  (\<open>null\<close>, \<open>undefined\<close>, any falsy value) the handler throws
  \<open>HTTPException(500, 'Failed to generate shop catalog')\<close>, answered with status 500
  and the envelope; when it returns data (a truthy value, as every object and array is)
  the answer is 200 with that value as the body and the headers
  \<open>Cache-Control: public, max-age=300\<close> and \<open>X-Content-Type-Options: nosniff\<close>.
\<close>

theorem catalog_route_outcomes:
  assumes "target c = Catalog"
    and "CatalogRoute \<in> set rs"
    and "rateLimit default_windowMs default_max st now c = (st', Next)"
    and "shop e = Inr catalog"
    and "\<not> shop_late e"
  shows "(\<not> truthy catalog \<longrightarrow>
            catalog_handler (shop e) =
              Inl (HTTPException 500 (lit ''Failed to generate shop catalog'')) \<and>
            app_fetch rs st e now later c =
              (st', Responded
                      \<lparr>status = 500,
                       body = JObj [(''error'', JStr (lit ''Failed to generate shop catalog'')),
                                    (''status'', JNum 500),
                                    (''timestamp'', JIso later)],
                       resp_headers = []\<rparr>))
       \<and> (truthy catalog \<longrightarrow>
            app_fetch rs st e now later c =
              (st', Responded
                      \<lparr>status = 200,
                       body = catalog,
                       resp_headers = [(''Cache-Control'', ''public, max-age=300''),
                                       (''X-Content-Type-Options'', ''nosniff'')]\<rparr>))"
proof -
  have "handle_error e later (HTTPException 500 (lit ''Failed to generate shop catalog'')) =
      Responded \<lparr>status = 500,
                 body = JObj [(''error'', JStr (lit ''Failed to generate shop catalog'')),
                              (''status'', JNum (of_int 500)),
                              (''timestamp'', JIso later)],
                 resp_headers = []\<rparr>"
    using onError_in_range[of 500 later "lit ''Failed to generate shop catalog''"]
    by (simp add: handle_error_def)
  then show ?thesis
    using assms
    by (auto simp add: app_fetch_def timeout_def timer_fires_def dispatch_def
          catalog_handler_def json_def)
qed

theorem catalog_route_outcomes_witness:
  "app_fetch builtin_routes Map.empty sample_env 0 1 catalog_request =
     ([lit ''anonymous'' \<mapsto> \<lparr>count = 1, resetTime = 0 + default_windowMs\<rparr>],
      Responded
        \<lparr>status = 500,
         body = JObj [(''error'', JStr (lit ''Failed to generate shop catalog'')),
                      (''status'', JNum 500),
                      (''timestamp'', JIso 1)],
         resp_headers = []\<rparr>)
   \<and> app_fetch builtin_routes Map.empty stocked_env 0 1 catalog_request =
     ([lit ''anonymous'' \<mapsto> \<lparr>count = 1, resetTime = 0 + default_windowMs\<rparr>],
      Responded
        \<lparr>status = 200,
         body = JObj [(''storefronts'', JArr [])],
         resp_headers = [(''Cache-Control'', ''public, max-age=300''),
                         (''X-Content-Type-Options'', ''nosniff'')]\<rparr>)"
proof -
  have t: "target catalog_request = Catalog" by (simp add: catalog_request_def)
  have r: "CatalogRoute \<in> set builtin_routes" by (simp add: builtin_routes_def)
  have adm: "rateLimit default_windowMs default_max Map.empty 0 catalog_request =
      ([lit ''anonymous'' \<mapsto> \<lparr>count = 1, resetTime = 0 + default_windowMs\<rparr>], Next)"
    by (simp add: rateLimit_def client_key_catalog_request)
  have none: "shop sample_env = Inr JNull" "\<not> shop_late sample_env" "\<not> truthy JNull"
    by (simp_all add: sample_env_def)
  have some: "shop stocked_env = Inr (JObj [(''storefronts'', JArr [])])"
    "\<not> shop_late stocked_env"
    "truthy (JObj [(''storefronts'', JArr [])])"
    by (simp_all add: stocked_env_def)
  from catalog_route_outcomes[OF t r adm none(1) none(2), of 1] none(3)
  have one: "app_fetch builtin_routes Map.empty sample_env 0 1 catalog_request =
     ([lit ''anonymous'' \<mapsto> \<lparr>count = 1, resetTime = 0 + default_windowMs\<rparr>],
      Responded
        \<lparr>status = 500,
         body = JObj [(''error'', JStr (lit ''Failed to generate shop catalog'')),
                      (''status'', JNum 500),
                      (''timestamp'', JIso 1)],
         resp_headers = []\<rparr>)"
    by blast
  from catalog_route_outcomes[OF t r adm some(1) some(2), of 1] some(3)
  have two: "app_fetch builtin_routes Map.empty stocked_env 0 1 catalog_request =
     ([lit ''anonymous'' \<mapsto> \<lparr>count = 1, resetTime = 0 + default_windowMs\<rparr>],
      Responded
        \<lparr>status = 200,
         body = JObj [(''storefronts'', JArr [])],
         resp_headers = [(''Cache-Control'', ''public, max-age=300''),
                         (''X-Content-Type-Options'', ''nosniff'')]\<rparr>)"
    by blast
  from one two show ?thesis by (rule conjI)
qed

text \<open>
  \<open>timeout(30000)\<close> stands around the handler: when \<open>GenerateShop\<close> returns its data only
  after the timer has fired, the request is answered 504, not 200.
\<close>

theorem catalog_timeout_counterexample:
  "target catalog_request = Catalog
   \<and> shop slow_env = Inr (JObj [(''storefronts'', JArr [])])
   \<and> truthy (JObj [(''storefronts'', JArr [])])
   \<and> app_fetch builtin_routes Map.empty slow_env 0 30001 catalog_request =
     ([lit ''anonymous'' \<mapsto> \<lparr>count = 1, resetTime = 0 + default_windowMs\<rparr>],
      Responded
        \<lparr>status = 504,
         body = JObj [(''error'', JStr (lit ''Gateway Timeout'')),
                      (''status'', JNum 504),
                      (''timestamp'', JIso 30001)],
         resp_headers = []\<rparr>)"
proof -
  have adm: "rateLimit default_windowMs default_max Map.empty 0 catalog_request =
      ([lit ''anonymous'' \<mapsto> \<lparr>count = 1, resetTime = 0 + default_windowMs\<rparr>], Next)"
    by (simp add: rateLimit_def client_key_catalog_request)
  have late: "timer_fires builtin_routes slow_env catalog_request"
    by (simp add: timer_fires_def slow_env_def catalog_request_def builtin_routes_def)
  have "handle_error slow_env 30001 (HTTPException 504 (lit ''Gateway Timeout'')) =
      Responded \<lparr>status = 504,
                 body = JObj [(''error'', JStr (lit ''Gateway Timeout'')),
                              (''status'', JNum (of_int 504)),
                              (''timestamp'', JIso 30001)],
                 resp_headers = []\<rparr>"
    using onError_in_range[of 504 30001 "lit ''Gateway Timeout''"]
    by (simp add: handle_error_def)
  then have "app_fetch builtin_routes Map.empty slow_env 0 30001 catalog_request =
     ([lit ''anonymous'' \<mapsto> \<lparr>count = 1, resetTime = 0 + default_windowMs\<rparr>],
      Responded
        \<lparr>status = 504,
         body = JObj [(''error'', JStr (lit ''Gateway Timeout'')),
                      (''status'', JNum 504),
                      (''timestamp'', JIso 30001)],
         resp_headers = []\<rparr>)"
    by (simp add: app_fetch_def timeout_def adm late)
  then show ?thesis
    by (simp add: catalog_request_def slow_env_def stocked_env_def)
qed




section \<open>Properties of startup\<close>

lemma startServer_ok:
  "connect co = None \<Longrightarrow> loadRoutes co = None \<Longrightarrow>
   startServer co initial_state =
     Inr \<lparr>trace = [Connected, RoutesLoaded,
                    Registered CatalogRoute, Registered PlayerStatsRoute,
                    Registered RootRoute, Registered HealthRoute, NotFoundInstalled],
          routes = [CatalogRoute, PlayerStatsRoute, RootRoute, HealthRoute],
          loaded = []\<rparr>"
  by (simp add: startServer_def initial_state_def register_def log_event_def)

lemma try_import_trace: "trace (try_import co sub s) = trace s @ [ImportAttempt sub]"
  by (simp add: try_import_def log_event_def split: option.splits)

lemma try_import_routes: "routes (try_import co sub s) = routes s"
  by (simp add: try_import_def log_event_def split: option.splits)

lemma try_import_loaded:
  "loaded (try_import co sub s) = loaded s @ filter (\<lambda>x. import_of co x = None) [sub]"
  by (simp add: try_import_def log_event_def split: option.splits)

lemma health_on_fresh_store:
  "target c = Health \<Longrightarrow> HealthRoute \<in> set rs \<Longrightarrow>
   snd (app_fetch rs Map.empty e now later c) = Responded (health_handler later)"
  by (simp add: app_fetch_def rateLimit_def timeout_def timer_fires_def dispatch_def)

text \<open>
  C8. When \<open>Connect\<close> and \<open>LoadRoutes\<close> return, the module attempts each of the two
  optional imports exactly once, after the built-in routes are registered and before the
  default export from which the runtime serves; an import that throws is ignored, the
  export is still reached, and the first request for \<open>/health\<close> is answered 200.
\<close>

theorem startup_survives_import_failures:
  assumes "connect co = None" and "loadRoutes co = None"
  shows "\<exists>s. main co = Inr s
     \<and> trace s = [Connected, RoutesLoaded,
                  Registered CatalogRoute, Registered PlayerStatsRoute,
                  Registered RootRoute, Registered HealthRoute, NotFoundInstalled,
                  ImportAttempt Bot, ImportAttempt Matchmaker, LoggedListening, Serve]
     \<and> count_list (trace s) (ImportAttempt Bot) = 1
     \<and> count_list (trace s) (ImportAttempt Matchmaker) = 1
     \<and> precedes (ImportAttempt Bot) Serve (trace s)
     \<and> precedes (ImportAttempt Matchmaker) Serve (trace s)
     \<and> loaded s = filter (\<lambda>sub. import_of co sub = None) [Bot, Matchmaker]
     \<and> (\<forall>e now later c. target c = Health \<longrightarrow>
           snd (app_fetch (routes s) Map.empty e now later c) =
             Responded \<lparr>status = 200,
                        body = JObj [(''status'', JStr (lit ''healthy'')),
                                     (''database'', JStr (lit ''connected'')),
                                     (''timestamp'', JIso later)],
                        resp_headers = []\<rparr>)"
proof -
  let ?s0 = "\<lparr>trace = [Connected, RoutesLoaded,
                    Registered CatalogRoute, Registered PlayerStatsRoute,
                    Registered RootRoute, Registered HealthRoute, NotFoundInstalled],
          routes = [CatalogRoute, PlayerStatsRoute, RootRoute, HealthRoute],
          loaded = []\<rparr>"
  let ?s = "log_event Serve (log_event LoggedListening
              (try_import co Matchmaker (try_import co Bot ?s0)))"
  have m: "main co = Inr ?s"
    using assms by (simp add: main_def startServer_ok)
  have tr: "trace ?s = [Connected, RoutesLoaded,
                  Registered CatalogRoute, Registered PlayerStatsRoute,
                  Registered RootRoute, Registered HealthRoute, NotFoundInstalled,
                  ImportAttempt Bot, ImportAttempt Matchmaker, LoggedListening, Serve]"
    by (simp add: log_event_def try_import_trace)
  have ro: "routes ?s = [CatalogRoute, PlayerStatsRoute, RootRoute, HealthRoute]"
    by (simp add: log_event_def try_import_routes)
  have lo: "loaded ?s = filter (\<lambda>sub. import_of co sub = None) [Bot, Matchmaker]"
    by (simp add: log_event_def try_import_loaded)
  have he: "snd (app_fetch (routes ?s) Map.empty e now later c) =
             Responded \<lparr>status = 200,
                        body = JObj [(''status'', JStr (lit ''healthy'')),
                                     (''database'', JStr (lit ''connected'')),
                                     (''timestamp'', JIso later)],
                        resp_headers = []\<rparr>"
    if "target c = Health" for e now later c
    using health_on_fresh_store[OF that, of "routes ?s" e now later]
    by (simp only: ro) (simp add: health_handler_def json_def)
  have cnt: "count_list (trace ?s) (ImportAttempt Bot) = 1"
       "count_list (trace ?s) (ImportAttempt Matchmaker) = 1"
       "precedes (ImportAttempt Bot) Serve (trace ?s)"
       "precedes (ImportAttempt Matchmaker) Serve (trace ?s)"
    by (simp_all only: tr) simp_all
  from m tr cnt lo he show ?thesis by blast
qed

theorem startup_survives_import_failures_witness:
  "\<exists>s. main imports_fail = Inr s
     \<and> trace s = startup_trace
     \<and> loaded s = []
     \<and> snd (app_fetch (routes s) Map.empty sample_env 0 1 health_request) =
         Responded \<lparr>status = 200,
                    body = JObj [(''status'', JStr (lit ''healthy'')),
                                 (''database'', JStr (lit ''connected'')),
                                 (''timestamp'', JIso 1)],
                    resp_headers = []\<rparr>"
proof -
  have a: "connect imports_fail = None" and b: "loadRoutes imports_fail = None"
    by (simp_all add: imports_fail_def)
  have c: "filter (\<lambda>sub. import_of imports_fail sub = None) [Bot, Matchmaker] = []"
    by (simp add: imports_fail_def)
  have d: "target health_request = Health" by (simp add: health_request_def)
  from startup_survives_import_failures[OF a b] c d
  show ?thesis unfolding startup_trace_def by metis
qed

text \<open>
  The imports are not attempted after the server has begun to serve: in the trace of a
  startup where everything succeeds, \<open>Serve\<close> comes last and both attempts come before
  it.
\<close>

theorem imports_before_serving_counterexample:
  "main all_up = Inr \<lparr>trace = startup_trace,
                      routes = builtin_routes,
                      loaded = [Bot, Matchmaker]\<rparr>
   \<and> \<not> precedes Serve (ImportAttempt Bot) startup_trace
   \<and> \<not> precedes Serve (ImportAttempt Matchmaker) startup_trace
   \<and> precedes (ImportAttempt Bot) Serve startup_trace
   \<and> precedes (ImportAttempt Matchmaker) Serve startup_trace"
  by (simp add: main_def startServer_def initial_state_def register_def log_event_def
        try_import_def all_up_def startup_trace_def builtin_routes_def)

end
